theory Spec2Isabelle
  imports Main
begin

section \<open>Values of the host language\<close>

text \<open>
  The library is written in TypeScript and handles values of type \<open>any\<close>: a translation
  table is a \<open>Record<string, any>\<close>. The values are modelled by the datatype below.
  Strings are lists of code units (here the 8-bit range), numbers are the integers, an
  object is the list of its own properties in insertion order, and a callable is opaque:
  it is known by an identifier and by its source text, which is its string form.

  Property reads see the own properties of data: the entries of an object, and the
  \<open>length\<close> and the indexed characters of a string. What the host attaches to values
  through prototypes (for instance \<open>toString\<close>), the properties of function objects,
  accessor properties and arrays are not part of the model.
\<close>

datatype jsval =
    JUndefined
  | JNull
  | JBool bool
  | JNum int
  | JStr string
  | JFun nat string
  | JObj "(string \<times> jsval) list"

text \<open>What the source can raise: a \<open>TypeError\<close> of the host, or whatever a callable throws.\<close>

datatype error = TypeError | Thrown string

text \<open>Truthiness, as tested by \<open>a ? _ : _\<close> and \<open>a || b\<close>.\<close>

fun truthy :: "jsval \<Rightarrow> bool" where
  "truthy JUndefined = False"
| "truthy JNull = False"
| "truthy (JBool b) = b"
| "truthy (JNum n) = (n \<noteq> 0)"
| "truthy (JStr s) = (s \<noteq> [])"
| "truthy (JFun f src) = True"
| "truthy (JObj kvs) = True"

subsection \<open>Numbers as strings\<close>

definition digit_char :: "nat \<Rightarrow> char" where
  "digit_char d = ''0123456789'' ! d"

function string_of_nat :: "nat \<Rightarrow> string" where
  "string_of_nat n =
     (if n < 10 then [digit_char n] else string_of_nat (n div 10) @ [digit_char (n mod 10)])"
  by pat_completeness auto
termination
  by (relation "measure (\<lambda>n. n)") auto

declare string_of_nat.simps [simp del]

definition string_of_int :: "int \<Rightarrow> string" where
  "string_of_int i = (if i < 0 then CHR ''-'' # string_of_nat (nat (- i)) else string_of_nat (nat i))"

text \<open>The string form of a value (\<open>ToString\<close>), which \<open>String.prototype.replace\<close> applies
  to what its callback returns. A plain object prints as \<open>[object Object]\<close>.\<close>

fun to_string :: "jsval \<Rightarrow> string" where
  "to_string JUndefined = ''undefined''"
| "to_string JNull = ''null''"
| "to_string (JBool b) = (if b then ''true'' else ''false'')"
| "to_string (JNum n) = string_of_int n"
| "to_string (JStr s) = s"
| "to_string (JFun f src) = src"
| "to_string (JObj kvs) = ''[object Object]''"

subsection \<open>Property reads\<close>

text \<open>The own property \<open>k\<close> of a string: its length, or the character at a canonical
  index (an index is canonical when it is the decimal form of a number).\<close>

definition string_prop :: "string \<Rightarrow> string \<Rightarrow> jsval" where
  "string_prop s k =
     (if k = ''length'' then JNum (int (length s))
      else (case find (\<lambda>i. string_of_nat i = k) [0..<length s] of
              Some i \<Rightarrow> JStr [s ! i]
            | None \<Rightarrow> JUndefined))"

text \<open>\<open>a[b]\<close>: reading a property of \<open>undefined\<close> or \<open>null\<close> raises a \<open>TypeError\<close>;
  a property that is absent reads as \<open>undefined\<close>.\<close>

fun get_prop :: "jsval \<Rightarrow> string \<Rightarrow> error + jsval" where
  "get_prop JUndefined k = Inl TypeError"
| "get_prop JNull k = Inl TypeError"
| "get_prop (JObj kvs) k = Inr (case map_of kvs k of Some v \<Rightarrow> v | None \<Rightarrow> JUndefined)"
| "get_prop (JStr s) k = Inr (string_prop s k)"
| "get_prop (JBool b) k = Inr JUndefined"
| "get_prop (JNum n) k = Inr JUndefined"
| "get_prop (JFun f src) k = Inr JUndefined"

subsection \<open>String methods of the host\<close>

text \<open>\<open>String.prototype.trim\<close> removes white space and line terminators at both ends.\<close>

definition is_space :: "char \<Rightarrow> bool" where
  "is_space c = (of_char c \<in> {9, 10, 11, 12, 13, 32, 160 :: nat})"

definition js_trim :: "string \<Rightarrow> string" where
  "js_trim s = rev (dropWhile is_space (rev (dropWhile is_space s)))"

text \<open>\<open>s.split(c)\<close> for a one-character separator: never the empty list.\<close>

fun js_split :: "char \<Rightarrow> string \<Rightarrow> string list" where
  "js_split c [] = [[]]"
| "js_split c (x # xs) =
     (if x = c then [] # js_split c xs
      else (case js_split c xs of
              [] \<Rightarrow> [[x]]
            | seg # segs \<Rightarrow> (x # seg) # segs))"

text \<open>\<open>Array.prototype.reduce\<close> with an initial value, for a callback that may raise.\<close>

fun js_reduce :: "('a \<Rightarrow> 'b \<Rightarrow> error + 'a) \<Rightarrow> 'a \<Rightarrow> 'b list \<Rightarrow> error + 'a" where
  "js_reduce f a [] = Inr a"
| "js_reduce f a (b # bs) = (case f a b of Inl e \<Rightarrow> Inl e | Inr a' \<Rightarrow> js_reduce f a' bs)"

section \<open>The deep path reader\<close>

text \<open>
  \<^verbatim>\<open>
  function deepReadObject(obj, path, defaultValue) {
    const value = path.trim().split('.')
      .reduce((a, b) => (a ? a[b] : undefined), obj);
    return value !== undefined ? value : defaultValue;
  }
  \<close>
\<close>

definition read_step :: "jsval \<Rightarrow> string \<Rightarrow> error + jsval" where
  "read_step a b = (if truthy a then get_prop a b else Inr JUndefined)"

definition deepReadObject :: "jsval \<Rightarrow> string \<Rightarrow> jsval \<Rightarrow> error + jsval" where
  "deepReadObject obj path defaultValue =
     (case js_reduce read_step obj (js_split CHR ''.'' (js_trim path)) of
        Inl e \<Rightarrow> Inl e
      | Inr v \<Rightarrow> Inr (if v \<noteq> JUndefined then v else defaultValue))"

section \<open>The template interpolator\<close>

text \<open>
  \<^verbatim>\<open>
  function template(str, params, reg = /{{(.*?)}}/g) {
    return str.replace(reg, (_, key) => deepReadObject(params, key, ''));
  }
  \<close>
  The pattern is the default one. After an opening \<open>{{\<close> the lazy group takes as few
  characters as possible up to the first \<open>}}\<close>; the dot of the pattern matches no line
  terminator, so an opening with a line break before its closing is no match.
\<close>

definition is_line_terminator :: "char \<Rightarrow> bool" where
  "is_line_terminator c = (of_char c \<in> {10, 13 :: nat})"

text \<open>\<open>find_close s\<close>: from the text after \<open>{{\<close>, the captured group and the text after the
  closing \<open>}}\<close>, if the pattern matches.\<close>

fun find_close :: "string \<Rightarrow> (string \<times> string) option" where
  "find_close [] = None"
| "find_close (c # cs) =
     (if take 2 (c # cs) = ''}}'' then Some ([], drop 1 cs)
      else if is_line_terminator c then None
      else (case find_close cs of
              None \<Rightarrow> None
            | Some (cap, rest) \<Rightarrow> Some (c # cap, rest)))"

lemma find_close_length: "find_close s = Some (cap, rest) \<Longrightarrow> length rest < length s"
  by (induction s arbitrary: cap rest) (auto split: if_splits option.splits)

text \<open>\<open>str.replace(/{{(.*?)}}/g, callback)\<close>: the matches are found from left to right,
  each is replaced by what the callback returns for its group, and the search goes on
  after the match.\<close>

function js_replace :: "(string \<Rightarrow> error + string) \<Rightarrow> string \<Rightarrow> error + string" where
  "js_replace f [] = Inr []"
| "js_replace f (c # cs) =
     (if take 2 (c # cs) = ''{{'' then
        (case find_close (drop 1 cs) of
           Some (cap, rest) \<Rightarrow>
             (case f cap of
                Inl e \<Rightarrow> Inl e
              | Inr r \<Rightarrow> (case js_replace f rest of Inl e \<Rightarrow> Inl e | Inr out \<Rightarrow> Inr (r @ out)))
         | None \<Rightarrow> (case js_replace f cs of Inl e \<Rightarrow> Inl e | Inr out \<Rightarrow> Inr (c # out)))
      else (case js_replace f cs of Inl e \<Rightarrow> Inl e | Inr out \<Rightarrow> Inr (c # out)))"
  by pat_completeness auto
termination
proof (relation "measure (\<lambda>(f, s). length s)")
  show "wf (measure (\<lambda>(f, s). length s))" by simp
next
  fix f :: "string \<Rightarrow> error + string" and c cs x2 cap rest r
  assume "find_close (drop 1 cs) = Some x2" and "(cap, rest) = x2"
  then have "length rest < length (drop 1 cs)"
    using find_close_length [of "drop 1 cs" cap rest] by simp
  then show "((f, rest), (f, c # cs)) \<in> measure (\<lambda>(f, s). length s)" by simp
qed auto

text \<open>The parameters are a \<open>Record<string, string>\<close>; the reader sees them as an object.\<close>

type_synonym params = "(string \<times> string) list"

definition params_obj :: "params \<Rightarrow> jsval" where
  "params_obj ps = JObj (map (\<lambda>(k, v). (k, JStr v)) ps)"

definition template_cb :: "params \<Rightarrow> string \<Rightarrow> error + string" where
  "template_cb ps key =
     (case deepReadObject (params_obj ps) key (JStr []) of
        Inl e \<Rightarrow> Inl e
      | Inr v \<Rightarrow> Inr (to_string v))"

definition template :: "string \<Rightarrow> params \<Rightarrow> error + string" where
  "template str ps = js_replace (template_cb ps) str"

section \<open>The translation store\<close>

text \<open>
  \<open>createI18nContext(init, lang)\<close> holds a signal with the current language and a keyed
  state with the dictionary, a \<open>Record<string, Record<string, any>>\<close>. The reactive
  layer is the host framework's; the model keeps the two values it stores: the field
  \<open>currentLocale\<close> is the value of the signal \<open>locale\<close>, the field \<open>dictionary\<close> is the
  state \<open>dict\<close>. The actions \<open>locale\<close> and \<open>dict\<close> of the source are \<open>locale_action\<close> and
  \<open>dict_action\<close> below.
\<close>

type_synonym table = "(string \<times> jsval) list"

record store =
  currentLocale :: string
  dictionary :: "(string \<times> table) list"

definition createI18nContext :: "(string \<times> table) list \<Rightarrow> string \<Rightarrow> store" where
  "createI18nContext init lang = \<lparr>currentLocale = lang, dictionary = init\<rparr>"

text \<open>A callable of a table, called with the parameters it was given, may change the
  store, return any value, or throw: what it does is a parameter of the model.\<close>

type_synonym callenv = "nat \<Rightarrow> params option \<Rightarrow> store \<Rightarrow> (error + jsval) \<times> store"

text \<open>\<open>dict[locale()]\<close>: the table of a language, \<open>undefined\<close> when there is none.\<close>

definition dict_entry :: "store \<Rightarrow> string \<Rightarrow> jsval" where
  "dict_entry s l = (case map_of (dictionary s) l of None \<Rightarrow> JUndefined | Some t \<Rightarrow> JObj t)"

text \<open>\<open>defaultValue || ''\<close>, for a \<open>defaultValue\<close> that is a string or omitted.\<close>

definition or_empty :: "string option \<Rightarrow> string" where
  "or_empty d = (case d of None \<Rightarrow> [] | Some x \<Rightarrow> if x \<noteq> [] then x else [])"

text \<open>
  \<^verbatim>\<open>
  const translate = (key, params, defaultValue) => {
    const val = deepReadObject(dict[locale()], key, defaultValue || '');
    if (typeof val === 'function') return val(params);
    if (typeof val === 'string') return template(val, params || {});
    return val;
  };
  \<close>
\<close>

definition translate ::
  "callenv \<Rightarrow> string \<Rightarrow> params option \<Rightarrow> string option \<Rightarrow> store \<Rightarrow> (error + jsval) \<times> store" where
  "translate call key ps defaultValue s =
     (case deepReadObject (dict_entry s (currentLocale s)) key (JStr (or_empty defaultValue)) of
        Inl e \<Rightarrow> (Inl e, s)
      | Inr val \<Rightarrow>
          (case val of
             JFun f src \<Rightarrow> call f ps s
           | JStr str \<Rightarrow>
               (case template str (case ps of Some p \<Rightarrow> p | None \<Rightarrow> []) of
                  Inl e \<Rightarrow> (Inl e, s)
                | Inr r \<Rightarrow> (Inr (JStr r), s))
           | _ \<Rightarrow> (Inr val, s)))"

subsection \<open>The actions\<close>

text \<open>A property write \<open>t[k] = v\<close> on the own properties of an object.\<close>

fun set_prop :: "string \<Rightarrow> 'v \<Rightarrow> (string \<times> 'v) list \<Rightarrow> (string \<times> 'v) list" where
  "set_prop k v [] = [(k, v)]"
| "set_prop k v ((k', v') # kvs) =
     (if k' = k then (k, v) # kvs else (k', v') # set_prop k v kvs)"

text \<open>\<open>Object.assign(target, source)\<close>: every own key of the source, in order, is read
  from the source and written to the target.\<close>

definition Object_assign :: "table \<Rightarrow> table \<Rightarrow> table" where
  "Object_assign target source =
     fold (\<lambda>k t. case map_of source k of Some v \<Rightarrow> set_prop k v t | None \<Rightarrow> t)
       (map fst source) target"

text \<open>Modelled from the spec: the two setters are the host framework's (\<open>solid-js\<close>), whose
  code is not in the repository. \<open>setDict(lang, f)\<close> writes \<open>f\<close> of the old entry at the
  key \<open>lang\<close> of the keyed state and touches no other key; \<open>setLocale(lang)\<close> writes the
  signal and returns what it wrote (the action \<open>locale\<close> is declared to return a string).\<close>

definition setDict :: "string \<Rightarrow> (table option \<Rightarrow> table) \<Rightarrow> store \<Rightarrow> store" where
  "setDict lang f s = s\<lparr>dictionary := set_prop lang (f (map_of (dictionary s) lang)) (dictionary s)\<rparr>"

definition setLocale :: "string \<Rightarrow> store \<Rightarrow> string \<times> store" where
  "setLocale lang s = (lang, s\<lparr>currentLocale := lang\<rparr>)"

text \<open>
  \<^verbatim>\<open>
  add(lang, table) { setDict(lang, (t) => Object.assign(t || {}, table)); },
  locale: (lang) => (lang ? setLocale(lang) : locale()),
  dict: (lang) => deepReadObject(dict, lang),
  \<close>
\<close>

definition add :: "string \<Rightarrow> table \<Rightarrow> store \<Rightarrow> store" where
  "add lang tbl s =
     setDict lang (\<lambda>t. Object_assign (case t of Some old \<Rightarrow> old | None \<Rightarrow> []) tbl) s"

definition locale_action :: "string option \<Rightarrow> store \<Rightarrow> string \<times> store" where
  "locale_action lang s =
     (case lang of
        Some l \<Rightarrow> if l \<noteq> [] then setLocale l s else (currentLocale s, s)
      | None \<Rightarrow> (currentLocale s, s))"



section \<open>The reader as the specification words it\<close>

text \<open>
  The specification describes the reader as a walk: the path is trimmed and split on
  dots; the current value starts at the table; at each segment, a falsy or absent current
  value ends the resolution with \<open>undefined\<close>, otherwise the current value becomes its
  property of that name. The default stands in for an \<open>undefined\<close> result only. The
  definitions below follow these words; the theorems compare them with the code.
\<close>

fun spec_lookup :: "jsval \<Rightarrow> string \<Rightarrow> jsval" where
  "spec_lookup (JObj kvs) k = (case map_of kvs k of Some v \<Rightarrow> v | None \<Rightarrow> JUndefined)"
| "spec_lookup (JStr s) k = string_prop s k"
| "spec_lookup v k = JUndefined"

fun spec_resolve :: "jsval \<Rightarrow> string list \<Rightarrow> jsval" where
  "spec_resolve cur [] = cur"
| "spec_resolve cur (seg # segs) =
     (if truthy cur then spec_resolve (spec_lookup cur seg) segs else JUndefined)"

definition spec_segments :: "string \<Rightarrow> string list" where
  "spec_segments path = js_split CHR ''.'' (js_trim path)"

definition spec_read :: "jsval \<Rightarrow> string \<Rightarrow> jsval \<Rightarrow> jsval" where
  "spec_read tbl path d =
     (if spec_resolve tbl (spec_segments path) = JUndefined then d
      else spec_resolve tbl (spec_segments path))"

section \<open>Predicates and runs used by the properties\<close>

text \<open>A value with no callable in it: a string, a number, a boolean, \<open>null\<close>, \<open>undefined\<close>,
  or an object whose values are such. A store is plain when every table of its
  dictionary holds only such values.\<close>

fun plain :: "jsval \<Rightarrow> bool" where
  "plain (JFun f src) = False"
| "plain (JObj kvs) = (\<forall>kv \<in> set kvs. plain (snd kv))"
| "plain v = True"

definition plain_store :: "store \<Rightarrow> bool" where
  "plain_store s = (\<forall>lt \<in> set (dictionary s). \<forall>kv \<in> set (snd lt). plain (snd kv))"


text \<open>The calls a client can make on one store, and what each does to it. A call sets
  the language when it is \<open>locale(x)\<close> with a truthy \<open>x\<close>. A callable of a table could do
  so too; \<open>keeps_locale\<close> says that the callables at hand do not.\<close>

datatype action =
    Act_add string table
  | Act_locale "string option"
  | Act_dict string
  | Act_translate string "params option" "string option"

fun perform :: "callenv \<Rightarrow> action \<Rightarrow> store \<Rightarrow> store" where
  "perform call (Act_add lang tbl) s = add lang tbl s"
| "perform call (Act_locale lang) s = snd (locale_action lang s)"
| "perform call (Act_dict lang) s = s"
| "perform call (Act_translate key ps d) s = snd (translate call key ps d s)"

fun sets_locale :: "action \<Rightarrow> bool" where
  "sets_locale (Act_locale (Some l)) = (l \<noteq> [])"
| "sets_locale a = False"

definition keeps_locale :: "callenv \<Rightarrow> bool" where
  "keeps_locale call = (\<forall>f p t. currentLocale (snd (call f p t)) = currentLocale t)"

section \<open>The reader follows the walk\<close>

lemma read_step_lookup:
  "read_step a b = Inr (if truthy a then spec_lookup a b else JUndefined)"
  by (cases a) (simp_all add: read_step_def)

lemma js_reduce_read_step_Cons:
  "js_reduce read_step a (b # bs) =
     js_reduce read_step (if truthy a then spec_lookup a b else JUndefined) bs"
proof -
  have "read_step a b = Inr (if truthy a then spec_lookup a b else JUndefined)"
    by (rule read_step_lookup)
  then show ?thesis by simp
qed

lemma js_reduce_undefined: "js_reduce read_step JUndefined segs = Inr JUndefined"
  by (induction segs) (simp_all add: js_reduce_read_step_Cons del: js_reduce.simps(2))

lemma js_reduce_resolve: "js_reduce read_step a segs = Inr (spec_resolve a segs)"
proof (induction segs arbitrary: a)
  case Nil
  show ?case by simp
next
  case (Cons seg segs)
  show ?case
  proof (cases "truthy a")
    case True
    then show ?thesis
      by (simp add: js_reduce_read_step_Cons Cons.IH del: js_reduce.simps(2))
  next
    case False
    then show ?thesis
      by (simp add: js_reduce_read_step_Cons js_reduce_undefined del: js_reduce.simps(2))
  qed
qed

lemma deepReadObject_resolve:
  "deepReadObject obj path d =
     Inr (if spec_resolve obj (spec_segments path) = JUndefined then d
          else spec_resolve obj (spec_segments path))"
  by (simp add: deepReadObject_def spec_segments_def js_reduce_resolve)

lemma deepReadObject_spec_read: "deepReadObject obj path d = Inr (spec_read obj path d)"
  by (simp add: deepReadObject_resolve spec_read_def)





text \<open>
  Claim C5. The reader on the documented examples: in the table \<open>{a: {b: {c: 'hello'}}}\<close>
  the path \<open>a.b.c\<close> reads \<open>'hello'\<close>, the path \<open>a.b.d\<close> reads \<open>undefined\<close>, and the path
  \<open>a.b.d\<close> with the default \<open>'fallback'\<close> reads \<open>'fallback'\<close>.
\<close>

theorem deepReadObject_examples:
  "deepReadObject (JObj [(''a'', JObj [(''b'', JObj [(''c'', JStr ''hello'')])])]) ''a.b.c''
       JUndefined
     = Inr (JStr ''hello'')
   \<and> deepReadObject (JObj [(''a'', JObj [(''b'', JObj [(''c'', JStr ''hello'')])])]) ''a.b.d''
       JUndefined
     = Inr JUndefined
   \<and> deepReadObject (JObj [(''a'', JObj [(''b'', JObj [(''c'', JStr ''hello'')])])]) ''a.b.d''
       (JStr ''fallback'')
     = Inr (JStr ''fallback'')"
  by code_simp


section \<open>The interpolator replaces its placeholders\<close>















section \<open>White space in a path\<close>






















section \<open>Translating\<close>



lemma map_of_plain: "\<forall>kv \<in> set kvs. plain (snd kv) \<Longrightarrow> map_of kvs k = Some v \<Longrightarrow> plain v"
  by (induction kvs) (auto split: if_splits)

lemma string_prop_plain: "plain (string_prop s k)"
  by (simp add: string_prop_def split: option.splits)

lemma spec_lookup_plain: "plain v \<Longrightarrow> plain (spec_lookup v k)"
  by (cases v) (auto simp: string_prop_plain split: option.splits dest: map_of_plain)

lemma spec_resolve_plain: "plain v \<Longrightarrow> plain (spec_resolve v segs)"
  by (induction segs arbitrary: v) (simp_all add: spec_lookup_plain)

lemma spec_read_plain: "plain v \<Longrightarrow> plain d \<Longrightarrow> plain (spec_read v path d)"
  by (simp add: spec_read_def spec_resolve_plain)

lemma dict_entry_plain: "plain_store s \<Longrightarrow> plain (dict_entry s l)"
  by (fastforce simp: plain_store_def dict_entry_def split: option.splits dest!: map_of_SomeD)

lemma translate_plain_state:
  assumes "plain_store s"
  shows "snd (translate call key ps d s) = s"
proof -
  have "plain (spec_read (dict_entry s (currentLocale s)) key (JStr (or_empty d)))"
    using assms by (simp add: spec_read_plain dict_entry_plain)
  then show ?thesis
    unfolding translate_def deepReadObject_spec_read
    by (cases "spec_read (dict_entry s (currentLocale s)) key (JStr (or_empty d))")
       (simp_all split: sum.splits)
qed

lemma translate_plain_call:
  assumes "plain_store s"
  shows "translate call key ps d s = translate call' key ps d s"
proof -
  have "plain (spec_read (dict_entry s (currentLocale s)) key (JStr (or_empty d)))"
    using assms by (simp add: spec_read_plain dict_entry_plain)
  then show ?thesis
    unfolding translate_def deepReadObject_spec_read
    by (cases "spec_read (dict_entry s (currentLocale s)) key (JStr (or_empty d))") simp_all
qed

text \<open>
  Claim C9. In a store whose tables hold no callable, \<open>translate\<close> leaves the current
  language and the dictionary as they are: the store after the call is the store before
  it. A second call with the same arguments then returns what the first returned, and
  the outcome does not depend on what callables would do.
\<close>

theorem translate_frame:
  assumes "plain_store s"
  shows "currentLocale (snd (translate call key ps d s)) = currentLocale s
    \<and> dictionary (snd (translate call key ps d s)) = dictionary s
    \<and> snd (translate call key ps d s) = s
    \<and> translate call key ps d (snd (translate call key ps d s)) = translate call key ps d s
    \<and> translate call key ps d s = translate call' key ps d s"
  using translate_plain_state [OF assms] translate_plain_call [OF assms] by simp

text \<open>
  The theorem at a store with a string, a number and a nested table, and with callables
  that would set the language if they were called.
\<close>

theorem translate_frame_witness:
  "plain_store (createI18nContext
       [(''fr'', [(''title'', JStr ''Bonjour''), (''count'', JNum 3),
                  (''menu'', JObj [(''open'', JStr ''Ouvrir'')])])] ''fr'')
   \<and> snd (translate (\<lambda>f p t. (Inr JNull, t\<lparr>currentLocale := ''zz''\<rparr>)) ''menu.open'' None None
        (createI18nContext
          [(''fr'', [(''title'', JStr ''Bonjour''), (''count'', JNum 3),
                     (''menu'', JObj [(''open'', JStr ''Ouvrir'')])])] ''fr''))
      = createI18nContext
          [(''fr'', [(''title'', JStr ''Bonjour''), (''count'', JNum 3),
                     (''menu'', JObj [(''open'', JStr ''Ouvrir'')])])] ''fr''"
proof -
  let ?s = "createI18nContext
       [(''fr'', [(''title'', JStr ''Bonjour''), (''count'', JNum 3),
                  (''menu'', JObj [(''open'', JStr ''Ouvrir'')])])] ''fr''"
  have h: "plain_store ?s"
    by (simp add: plain_store_def createI18nContext_def)
  from translate_frame
         [OF h, of "\<lambda>f p t. (Inr JNull, t\<lparr>currentLocale := ''zz''\<rparr>)" "''menu.open''" None None]
  show ?thesis using h by blast
qed

text \<open>
  The condition is needed: where the key resolves to a callable, the store after
  \<open>translate\<close> is whatever the callable leaves.
\<close>

lemma translate_callable_may_write:
  "snd (translate (\<lambda>f p t. (Inr JNull, t\<lparr>currentLocale := ''zz''\<rparr>)) ''greet'' None None
        (createI18nContext [(''fr'', [(''greet'', JFun 0 ''() => 1'')])] ''fr''))
     = createI18nContext [(''fr'', [(''greet'', JFun 0 ''() => 1'')])] ''zz''"
proof -
  have "spec_segments ''greet'' = [''greet'']"
    by (simp add: spec_segments_def js_trim_def is_space_def)
  then show ?thesis
    by (simp add: translate_def deepReadObject_spec_read spec_read_def dict_entry_def
        createI18nContext_def)
qed

section \<open>Reads that find nothing\<close>








section \<open>The actions on the store\<close>

lemma map_of_set_prop: "map_of (set_prop k v kvs) = (map_of kvs)(k \<mapsto> v)"
  by (induction kvs) (auto simp: fun_eq_iff)

lemma map_of_assign_fold:
  "map_of (fold (\<lambda>k t. case map_of src k of Some v \<Rightarrow> set_prop k v t | None \<Rightarrow> t) ks t) k =
     (if k \<in> set ks then (case map_of src k of Some v \<Rightarrow> Some v | None \<Rightarrow> map_of t k)
      else map_of t k)"
  by (induction ks arbitrary: t) (auto simp: map_of_set_prop split: option.splits)

lemma map_of_Object_assign:
  "map_of (Object_assign t src) k = (case map_of src k of Some v \<Rightarrow> Some v | None \<Rightarrow> map_of t k)"
proof -
  have "k \<notin> set (map fst src) \<Longrightarrow> map_of src k = None"
    by (simp add: map_of_eq_None_iff)
  then show ?thesis
    unfolding Object_assign_def map_of_assign_fold
    by (auto split: option.splits)
qed

lemma dict_entry_add_same:
  "dict_entry (add lang tbl s) lang =
     JObj (Object_assign (case map_of (dictionary s) lang of Some old \<Rightarrow> old | None \<Rightarrow> []) tbl)"
  by (simp add: dict_entry_def add_def setDict_def map_of_set_prop)

lemma dict_entry_add_other:
  "l \<noteq> lang \<Longrightarrow> dict_entry (add lang tbl s) l = dict_entry s l"
  by (simp add: dict_entry_def add_def setDict_def map_of_set_prop)

lemma spec_lookup_add:
  "spec_lookup (dict_entry (add lang tbl s) lang) k =
     (case map_of tbl k of Some v \<Rightarrow> v | None \<Rightarrow> spec_lookup (dict_entry s lang) k)"
  unfolding dict_entry_add_same
  by (simp add: map_of_Object_assign dict_entry_def split: option.splits)

lemma add_currentLocale: "currentLocale (add lang tbl s) = currentLocale s"
  by (simp add: add_def setDict_def)

lemma template_hej: "template ''hej {{ name }}'' [(''name'', ''Tom'')] = Inr ''hej Tom''"
  by code_simp

text \<open>
  Claim C3. For every language, table and store, \<open>add\<close> leaves the current language and
  the tables of the other languages as they are. Afterwards the language has a table
  (created when there was none), in which a key of the given table reads the given value
  as it is (a nested object replaces the old value, it is not merged into it) and every
  other key reads what it read before. In particular, after
  \<open>add('sw', {hello: 'hej {{ name }}'})\<close> and \<open>locale('sw')\<close>, the call
  \<open>translate('hello', {name: 'Tom'})\<close> returns \<open>'hej Tom'\<close>, and the other keys of the \<open>sw\<close>
  table are kept.
\<close>

theorem add_merges_shallowly:
  "currentLocale (add lang tbl s) = currentLocale s
   \<and> (l \<noteq> lang \<longrightarrow> dict_entry (add lang tbl s) l = dict_entry s l)
   \<and> (\<exists>t'. dict_entry (add lang tbl s) lang = JObj t')
   \<and> spec_lookup (dict_entry (add lang tbl s) lang) k =
       (case map_of tbl k of Some v \<Rightarrow> v | None \<Rightarrow> spec_lookup (dict_entry s lang) k)
   \<and> fst (translate call ''hello'' (Some [(''name'', ''Tom'')]) None
        (snd (locale_action (Some ''sw'') (add ''sw'' [(''hello'', JStr ''hej {{ name }}'')] s))))
       = Inr (JStr ''hej Tom'')
   \<and> (k \<noteq> ''hello'' \<longrightarrow>
        spec_lookup (dict_entry (add ''sw'' [(''hello'', JStr ''hej {{ name }}'')] s) ''sw'') k
          = spec_lookup (dict_entry s ''sw'') k)"
proof -
  let ?s1 = "add ''sw'' [(''hello'', JStr ''hej {{ name }}'')] s"
  let ?s2 = "snd (locale_action (Some ''sw'') ?s1)"
  have cur: "currentLocale ?s2 = ''sw''" and dic: "dict_entry ?s2 ''sw'' = dict_entry ?s1 ''sw''"
    by (simp_all add: locale_action_def setLocale_def dict_entry_def)
  have seg: "spec_segments ''hello'' = [''hello'']"
    by (simp add: spec_segments_def js_trim_def is_space_def)
  have tr: "truthy (dict_entry ?s1 ''sw'')"
    by (simp add: dict_entry_add_same)
  have "spec_read (dict_entry ?s2 ''sw'') ''hello'' (JStr []) = JStr ''hej {{ name }}''"
    using tr by (simp add: spec_read_def seg dic spec_lookup_add)
  then have ex: "fst (translate call ''hello'' (Some [(''name'', ''Tom'')]) None ?s2)
      = Inr (JStr ''hej Tom'')"
    unfolding translate_def deepReadObject_spec_read cur
    by (simp add: or_empty_def template_hej)
  have ob: "\<exists>t'. dict_entry (add lang tbl s) lang = JObj t'"
    by (simp add: dict_entry_add_same)
  have other: "k \<noteq> ''hello'' \<longrightarrow>
        spec_lookup (dict_entry ?s1 ''sw'') k = spec_lookup (dict_entry s ''sw'') k"
    by (simp add: spec_lookup_add)
  show ?thesis
    using ex ob other
    by (simp add: add_currentLocale dict_entry_add_other spec_lookup_add)
qed

text \<open>
  The theorem at a store that already has a \<open>sw\<close> table with the keys \<open>hello\<close> and \<open>bye\<close>,
  and at a nested table, which the new one replaces.
\<close>

theorem add_merges_shallowly_witness:
  "''fr'' \<noteq> ''sw''
   \<and> dict_entry
        (add ''sw'' [(''hello'', JStr ''hej {{ name }}'')]
          (createI18nContext
            [(''fr'', [(''hello'', JStr ''bonjour'')]),
             (''sw'', [(''hello'', JStr ''hallo''), (''bye'', JStr ''hej da'')])] ''fr'')) ''fr''
       = JObj [(''hello'', JStr ''bonjour'')]
   \<and> ''bye'' \<noteq> ''hello''
   \<and> spec_lookup
        (dict_entry
          (add ''sw'' [(''hello'', JStr ''hej {{ name }}'')]
            (createI18nContext
              [(''fr'', [(''hello'', JStr ''bonjour'')]),
               (''sw'', [(''hello'', JStr ''hallo''), (''bye'', JStr ''hej da'')])] ''fr''))
          ''sw'') ''bye''
       = JStr ''hej da''
   \<and> spec_lookup
        (dict_entry
          (add ''en'' [(''menu'', JObj [(''open'', JStr ''Open'')])]
            (createI18nContext
              [(''en'', [(''menu'', JObj [(''open'', JStr ''O''), (''close'', JStr ''C'')])])]
              ''en''))
          ''en'') ''menu''
       = JObj [(''open'', JStr ''Open'')]"
proof -
  let ?s = "createI18nContext
            [(''fr'', [(''hello'', JStr ''bonjour'')]),
             (''sw'', [(''hello'', JStr ''hallo''), (''bye'', JStr ''hej da'')])] ''fr''"
  let ?t = "[(''hello'', JStr ''hej {{ name }}'')]"
  have h1: "''fr'' \<noteq> ''sw''" and h2: "''bye'' \<noteq> ''hello''" by simp_all
  have v1: "dict_entry ?s ''fr'' = JObj [(''hello'', JStr ''bonjour'')]"
    and v2: "spec_lookup (dict_entry ?s ''sw'') ''bye'' = JStr ''hej da''"
    by (simp_all add: dict_entry_def createI18nContext_def)
  from add_merges_shallowly [of "''sw''" ?t ?s "''fr''" "''bye''"] h1 h2
  have "dict_entry (add ''sw'' ?t ?s) ''fr'' = dict_entry ?s ''fr''"
    and "spec_lookup (dict_entry (add ''sw'' ?t ?s) ''sw'') ''bye''
           = spec_lookup (dict_entry ?s ''sw'') ''bye''"
    by blast+
  moreover
  from add_merges_shallowly
         [of "''en''" "[(''menu'', JObj [(''open'', JStr ''Open'')])]"
             "createI18nContext
                [(''en'', [(''menu'', JObj [(''open'', JStr ''O''), (''close'', JStr ''C'')])])]
                ''en''" _ "''menu''"]
  have "spec_lookup
        (dict_entry
          (add ''en'' [(''menu'', JObj [(''open'', JStr ''Open'')])]
            (createI18nContext
              [(''en'', [(''menu'', JObj [(''open'', JStr ''O''), (''close'', JStr ''C'')])])]
              ''en''))
          ''en'') ''menu''
       = JObj [(''open'', JStr ''Open'')]"
    by simp
  ultimately show ?thesis using h1 h2 v1 v2 by simp
qed

lemma translate_currentLocale:
  "keeps_locale call \<Longrightarrow> currentLocale (snd (translate call key ps d s)) = currentLocale s"
  unfolding translate_def deepReadObject_spec_read keeps_locale_def
  by (simp split: jsval.splits sum.splits)

lemma perform_currentLocale:
  "keeps_locale call \<Longrightarrow> \<not> sets_locale a \<Longrightarrow> currentLocale (perform call a s) = currentLocale s"
  by (cases a rule: sets_locale.cases)
     (simp_all add: add_currentLocale translate_currentLocale locale_action_def)

lemma foldl_perform_currentLocale:
  "keeps_locale call \<Longrightarrow> \<forall>a \<in> set acts. \<not> sets_locale a \<Longrightarrow>
     currentLocale (foldl (\<lambda>t a. perform call a t) s acts) = currentLocale s"
  by (induction acts arbitrary: s) (simp_all add: perform_currentLocale)

text \<open>
  Claim C6. For every store: \<open>locale(x)\<close> with a truthy \<open>x\<close> sets the current language to
  \<open>x\<close> and returns it; \<open>locale()\<close> returns the current language and leaves the store as it
  is; and after \<open>locale(x)\<close>, whatever calls follow that set no language (\<open>add\<close>, \<open>dict\<close>,
  \<open>locale()\<close>, \<open>locale('')\<close>, and \<open>translate\<close> with callables that set none), \<open>locale()\<close>
  returns \<open>x\<close>.
\<close>

theorem locale_action_get_set:
  "(x \<noteq> [] \<longrightarrow> locale_action (Some x) s = (x, s\<lparr>currentLocale := x\<rparr>))
   \<and> locale_action None s = (currentLocale s, s)
   \<and> (x \<noteq> [] \<and> keeps_locale call \<and> (\<forall>a \<in> set acts. \<not> sets_locale a) \<longrightarrow>
        locale_action None (foldl (\<lambda>t a. perform call a t) (snd (locale_action (Some x) s)) acts)
          = (x, foldl (\<lambda>t a. perform call a t) (snd (locale_action (Some x) s)) acts))"
  by (auto simp: locale_action_def setLocale_def foldl_perform_currentLocale)

text \<open>
  The theorem at \<open>locale('en')\<close> followed by one call of each kind.
\<close>

theorem locale_action_get_set_witness:
  "''en'' \<noteq> []
   \<and> keeps_locale (\<lambda>f p t. (Inr JNull, t))
   \<and> \<not> sets_locale (Act_add ''sw'' [(''hello'', JStr ''hej'')])
   \<and> \<not> sets_locale (Act_locale None)
   \<and> \<not> sets_locale (Act_dict ''fr'')
   \<and> \<not> sets_locale (Act_translate ''hello'' None None)
   \<and> \<not> sets_locale (Act_locale (Some []))
   \<and> locale_action (Some ''en'') (createI18nContext [] ''fr'')
        = (''en'', (createI18nContext [] ''fr'')\<lparr>currentLocale := ''en''\<rparr>)
   \<and> locale_action None
        (foldl (\<lambda>t a. perform (\<lambda>f p t. (Inr JNull, t)) a t)
          (snd (locale_action (Some ''en'') (createI18nContext [] ''fr'')))
          [Act_add ''sw'' [(''hello'', JStr ''hej'')], Act_locale None, Act_dict ''fr'',
           Act_translate ''hello'' None None, Act_locale (Some [])])
      = (''en'',
         foldl (\<lambda>t a. perform (\<lambda>f p t. (Inr JNull, t)) a t)
          (snd (locale_action (Some ''en'') (createI18nContext [] ''fr'')))
          [Act_add ''sw'' [(''hello'', JStr ''hej'')], Act_locale None, Act_dict ''fr'',
           Act_translate ''hello'' None None, Act_locale (Some [])])"
proof -
  let ?call = "\<lambda>(f::nat) (p::params option) (t::store). (Inr JNull :: error + jsval, t)"
  let ?acts = "[Act_add ''sw'' [(''hello'', JStr ''hej'')], Act_locale None, Act_dict ''fr'',
           Act_translate ''hello'' None None, Act_locale (Some [])]"
  have k: "keeps_locale ?call" by (simp add: keeps_locale_def)
  have n: "\<forall>a \<in> set ?acts. \<not> sets_locale a" by simp
  have n': "\<not> sets_locale (Act_add ''sw'' [(''hello'', JStr ''hej'')])"
    "\<not> sets_locale (Act_locale None)" "\<not> sets_locale (Act_dict ''fr'')"
    "\<not> sets_locale (Act_translate ''hello'' None None)" "\<not> sets_locale (Act_locale (Some []))"
    by simp_all
  have x: "''en'' \<noteq> []" by simp
  from locale_action_get_set [of "''en''" "createI18nContext [] ''fr''" ?call ?acts] x k n
  have "locale_action (Some ''en'') (createI18nContext [] ''fr'')
        = (''en'', (createI18nContext [] ''fr'')\<lparr>currentLocale := ''en''\<rparr>)"
    and "locale_action None
        (foldl (\<lambda>t a. perform ?call a t)
          (snd (locale_action (Some ''en'') (createI18nContext [] ''fr''))) ?acts)
      = (''en'', foldl (\<lambda>t a. perform ?call a t)
          (snd (locale_action (Some ''en'') (createI18nContext [] ''fr''))) ?acts)"
    by blast+
  with x k n' show ?thesis by blast
qed





end
